theory Spec2Isabelle
  imports Main "HOL-Library.Sublist"
begin

section \<open>Python values\<close>

text \<open>
  The records of \<^verbatim>\<open>landing.py\<close> are what \<^verbatim>\<open>json.loads\<close> returns: dictionaries whose
  values are any JSON value. A float is kept opaque (its own type, with no operation of
  this theory on it): its truth value and its text are read through the library record
  below. A dictionary is an association list in insertion order, read with \<open>map_of\<close>;
  Python holds every key once.
\<close>

typedecl pyfloat

datatype pyval =
    PNone
  | PBool bool
  | PInt int
  | PFloat pyfloat
  | PStr string
  | PList "pyval list"
  | PDict "(string \<times> pyval) list"

datatype error =
    NotImplementedError string
  | OSError
  | IndexError
  | TypeError
  | AttributeError
  | AssertionError
  | LibraryError string

text \<open>
  What the template engine receives for a variable: markup wrapped in \<^verbatim>\<open>Markup\<close>, which
  the engine inserts as it is, or a plain integer or string.
\<close>

datatype jvalue = Markup string | JInt int | JStr string

text \<open>
  The library code the program calls and this theory does not define, taken as
  parameters: the truth value and \<^verbatim>\<open>str()\<close> of the values that are not scalars, the
  rows \<^verbatim>\<open>csv.reader\<close> yields one by one (each a row, or the error raised when it is
  asked for), \<^verbatim>\<open>json.loads\<close>, and the template engine: \<open>Template\<close> is the error of
  parsing a template source, if any, and \<open>render\<close> fills a parsed template, named by its
  source.
\<close>

record libs =
  float_bool :: "pyfloat \<Rightarrow> bool"
  str_other :: "pyval \<Rightarrow> string"
  csv_reader :: "string \<Rightarrow> (error + string list) list"
  json_loads :: "string \<Rightarrow> error + pyval"
  Template :: "string \<Rightarrow> error option"
  render :: "string \<Rightarrow> (string \<times> jvalue) list \<Rightarrow> error + string"

text \<open>Python's truth value of an object, as \<^verbatim>\<open>if x\<close> and \<^verbatim>\<open>x or y\<close> test it.\<close>

fun py_bool :: "libs \<Rightarrow> pyval \<Rightarrow> bool" where
  "py_bool L PNone = False"
| "py_bool L (PBool b) = b"
| "py_bool L (PInt i) = (i \<noteq> 0)"
| "py_bool L (PFloat x) = float_bool L x"
| "py_bool L (PStr s) = (s \<noteq> [])"
| "py_bool L (PList xs) = (xs \<noteq> [])"
| "py_bool L (PDict kvs) = (kvs \<noteq> [])"

fun str_nat :: "nat \<Rightarrow> string" where
  "str_nat n =
     (if n < 10 then [''0123456789'' ! n]
      else str_nat (n div 10) @ [''0123456789'' ! (n mod 10)])"

declare str_nat.simps [simp del]

definition str_int :: "int \<Rightarrow> string" where
  "str_int i = (if i < 0 then ''-'' @ str_nat (nat (- i)) else str_nat (nat i))"

text \<open>What an f-string field \<^verbatim>\<open>{x}\<close> puts in the text: \<^verbatim>\<open>str(x)\<close>.\<close>

fun py_str :: "libs \<Rightarrow> pyval \<Rightarrow> string" where
  "py_str L PNone = ''None''"
| "py_str L (PBool b) = (if b then ''True'' else ''False'')"
| "py_str L (PInt i) = str_int i"
| "py_str L (PStr s) = s"
| "py_str L v = str_other L v"

text \<open>\<^verbatim>\<open>sep.join(xs)\<close>.\<close>

fun str_join :: "string \<Rightarrow> string list \<Rightarrow> string" where
  "str_join sep [] = []"
| "str_join sep [x] = x"
| "str_join sep (x # y # ys) = x @ sep @ str_join sep (y # ys)"

definition endswith :: "string \<Rightarrow> string \<Rightarrow> bool" where
  "endswith s suf = suffix suf s"

text \<open>\<^verbatim>\<open>os.path.join(a, b)\<close> of \<^verbatim>\<open>posixpath\<close>.\<close>

definition os_path_join :: "string \<Rightarrow> string \<Rightarrow> string" where
  "os_path_join a b =
     (if prefix ''/'' b then b
      else if a = [] \<or> suffix ''/'' a then a @ b
      else a @ ''/'' @ b)"

section \<open>Command line\<close>

text \<open>The namespace \<^verbatim>\<open>parse_cli\<close> returns.\<close>

record args =
  infiles :: "string list"
  button_width :: int
  button_height :: int
  button_color :: string
  hover_button_color :: string
  max_button_per_line :: int
  fontsize :: int
  outdir :: string
  template_dir :: string

section \<open>Grouping\<close>

text \<open>
  \<^verbatim>\<open>zip_longest\<close> over \<open>n\<close> references to one iterator: each round takes the next \<open>n\<close>
  items, a round that the items do not fill is padded with \<open>fillvalue\<close>, and a round
  that finds no item ends the iteration. With \<open>n \<le> 0\<close> the argument list is empty and
  nothing is produced.
\<close>

function grouper :: "'a list \<Rightarrow> int \<Rightarrow> 'a \<Rightarrow> 'a list list" where
  "grouper iterable n fillvalue =
     (if n \<le> 0 \<or> iterable = [] then []
      else (take (nat n) iterable
              @ replicate (nat n - length (take (nat n) iterable)) fillvalue)
           # grouper (drop (nat n) iterable) n fillvalue)"
  by pat_completeness auto
termination
  by (relation "measure (\<lambda>(iterable, n, fillvalue). length iterable)") auto

declare grouper.simps [simp del]

section \<open>One button\<close>

definition convert_link_to_html ::
  "libs \<Rightarrow> pyval \<Rightarrow> pyval \<Rightarrow> pyval \<Rightarrow> pyval \<Rightarrow> pyval \<Rightarrow> pyval \<Rightarrow> pyval \<Rightarrow> args \<Rightarrow> string" where
  \<open>convert_link_to_html L text icon url width fontsize_v color hovered_color defaults =
     (let style0 =
            (if py_bool L width \<or> py_bool L fontsize_v \<or> py_bool L color then
               (if py_bool L width then [''width: '' @ py_str L width @ ''px;''] else [])
               @ (if py_bool L fontsize_v
                  then [''font-size: '' @ py_str L fontsize_v @ ''px;''] else [])
               @ (if py_bool L color
                  then [''background-color: '' @ py_str L color @ '';''] else [])
             else []);
          style1 = (if style0 \<noteq> [] then '' style="'' @ concat style0 @ ''"'' else '''');
          style2 =
            (if py_bool L hovered_color then
               style1
               @ '' onMouseOver=this.style.backgroundColor="'' @ py_str L hovered_color @ ''"''
               @ '' onMouseOut=this.style.backgroundColor="''
               @ py_str L (if py_bool L color then color else PStr (button_color defaults))
               @ ''"''
             else style1)
      in ''<a href="'' @ py_str L url @ ''"><button class="btn" '' @ style2
         @ ''> <i class="fa-solid fa-'' @ py_str L icon @ ''"></i> &nbsp; ''
         @ py_str L text @ '' </button></a>'')\<close>

text \<open>\<^verbatim>\<open>data.get(key, default)\<close> on a dictionary.\<close>

definition dict_get :: "(string \<times> pyval) list \<Rightarrow> string \<Rightarrow> pyval \<Rightarrow> pyval" where
  "dict_get d k dflt = (case map_of d k of Some v \<Rightarrow> v | None \<Rightarrow> dflt)"

text \<open>Only a dictionary has \<^verbatim>\<open>get\<close>: on any other value the first call raises.\<close>

fun json_repr_to_html :: "libs \<Rightarrow> pyval \<Rightarrow> args \<Rightarrow> error + string" where
  "json_repr_to_html L (PDict d) defaults =
     Inr (convert_link_to_html L
            (dict_get d ''text'' (PStr ''''))
            (dict_get d ''fa icon'' (PStr ''home''))
            (dict_get d ''url'' (PStr ''/''))
            (dict_get d ''button width'' PNone)
            (dict_get d ''fontsize'' PNone)
            (dict_get d ''color'' PNone)
            (dict_get d ''hovered color'' PNone)
            defaults)"
| "json_repr_to_html L v defaults = Inl AttributeError"

section \<open>The grid\<close>

text \<open>Evaluating a sequence of results in order: the first error is the one raised.\<close>

fun collect :: "(error + 'a) list \<Rightarrow> error + 'a list" where
  "collect [] = Inr []"
| "collect (Inl e # rs) = Inl e"
| "collect (Inr x # rs) = (case collect rs of Inl e \<Rightarrow> Inl e | Inr xs \<Rightarrow> Inr (x # xs))"

definition line_html :: "libs \<Rightarrow> args \<Rightarrow> pyval list \<Rightarrow> error + string" where
  "line_html L a line_links =
     (case collect (map (\<lambda>but_args. json_repr_to_html L but_args a)
                        (filter (py_bool L) line_links)) of
        Inl e \<Rightarrow> Inl e
      | Inr frags \<Rightarrow> Inr (str_join ''\<newline>'' frags))"

definition convert_links_to_html :: "libs \<Rightarrow> pyval list \<Rightarrow> args \<Rightarrow> error + string" where
  "convert_links_to_html L all_links a =
     (case collect (map (line_html L a) (grouper all_links (max_button_per_line a) PNone)) of
        Inl e \<Rightarrow> Inl e
      | Inr html \<Rightarrow> Inr (str_join ''<br/>'' html))"

section \<open>Files\<close>

text \<open>
  The file system as the program sees it: \<open>path_exists\<close> is \<^verbatim>\<open>os.path.exists\<close>,
  \<open>file_text\<close> gives the text of every file that \<^verbatim>\<open>open(p)\<close> opens for reading, and
  \<open>can_write\<close> says whether \<^verbatim>\<open>open(p, 'w')\<close> succeeds. A file that cannot be opened
  or read has no text, and the error is \<open>OSError\<close>. Opening for writing creates or
  empties that one file; nothing else of the file system changes.
\<close>

record filesystem =
  path_exists :: "string \<Rightarrow> bool"
  file_text :: "string \<rightharpoonup> string"
  can_write :: "string \<Rightarrow> bool"

definition open_w :: "filesystem \<Rightarrow> string \<Rightarrow> filesystem" where
  "open_w fs p = fs\<lparr>path_exists := (path_exists fs)(p := True),
                    file_text := (file_text fs)(p \<mapsto> '''')\<rparr>"

definition fd_write :: "filesystem \<Rightarrow> string \<Rightarrow> string \<Rightarrow> filesystem" where
  "fd_write fs p s = fs\<lparr>file_text := (file_text fs)(p \<mapsto> s)\<rparr>"

section \<open>Loading records\<close>

text \<open>The generator over the rows of a CSV file: three fields are read by index.\<close>

fun csv_rows :: "(error + string list) list \<Rightarrow> error + pyval list" where
  "csv_rows [] = Inr []"
| "csv_rows (Inl e # rows) = Inl e"
| "csv_rows (Inr a # rows) =
     (if length a < 3 then Inl IndexError
      else (case csv_rows rows of
              Inl e \<Rightarrow> Inl e
            | Inr recs \<Rightarrow>
                Inr (PDict [(''text'', PStr (a ! 0)), (''fa icon'', PStr (a ! 1)),
                            (''url'', PStr (a ! 2))] # recs)))"

text \<open>\<^verbatim>\<open>tuple(x)\<close>: the items of a list, the keys of a dictionary, the characters of a
  string; no other JSON value is iterable.\<close>

fun py_tuple :: "pyval \<Rightarrow> error + pyval list" where
  "py_tuple (PList xs) = Inr xs"
| "py_tuple (PDict kvs) = Inr (map (\<lambda>kv. PStr (fst kv)) kvs)"
| "py_tuple (PStr s) = Inr (map (\<lambda>c. PStr [c]) s)"
| "py_tuple v = Inl TypeError"

definition links_repr_from_file :: "libs \<Rightarrow> filesystem \<Rightarrow> string \<Rightarrow> error + pyval list" where
  "links_repr_from_file L fs infile =
     (if endswith infile ''.csv'' then
        (case file_text fs infile of
           None \<Rightarrow> Inl OSError
         | Some txt \<Rightarrow> csv_rows (csv_reader L txt))
      else if endswith infile ''.json'' then
        (case file_text fs infile of
           None \<Rightarrow> Inl OSError
         | Some txt \<Rightarrow>
             (case json_loads L txt of Inl e \<Rightarrow> Inl e | Inr v \<Rightarrow> py_tuple v))
      else Inl (NotImplementedError
                  (''Cannot handle file '' @ infile @ '' (not a json nor a csv)'')))"

text \<open>\<^verbatim>\<open>sum(map(links_repr_from_file, infiles), ())\<close>: the files are loaded one after the
  other and their records appended to the accumulator.\<close>

fun sum_links :: "libs \<Rightarrow> filesystem \<Rightarrow> pyval list \<Rightarrow> string list \<Rightarrow> error + pyval list" where
  "sum_links L fs acc [] = Inr acc"
| "sum_links L fs acc (infile # rest) =
     (case links_repr_from_file L fs infile of
        Inl e \<Rightarrow> Inl e
      | Inr links \<Rightarrow> sum_links L fs (acc @ links) rest)"

section \<open>Writing the templates\<close>

text \<open>
  The result is the error raised, if any, and the file system left behind. The target is
  opened, hence created or emptied, before the template is rendered.
\<close>

definition render_template ::
  "libs \<Rightarrow> string \<Rightarrow> string \<Rightarrow> string \<Rightarrow> (string \<times> jvalue) list \<Rightarrow> filesystem
     \<Rightarrow> error option \<times> filesystem" where
  "render_template L template_name template_dir_v target_dir variables fs =
     (if \<not> path_exists fs target_dir then (Some AssertionError, fs)
      else (case file_text fs (os_path_join template_dir_v template_name) of
              None \<Rightarrow> (Some OSError, fs)
            | Some src \<Rightarrow>
                (case Template L src of
                   Some e \<Rightarrow> (Some e, fs)
                 | None \<Rightarrow>
                     (let target = os_path_join target_dir template_name in
                      if \<not> can_write fs target then (Some OSError, fs)
                      else (case render L src variables of
                              Inl e \<Rightarrow> (Some e, open_w fs target)
                            | Inr txt \<Rightarrow> (None, fd_write (open_w fs target) target txt))))))"

section \<open>The program\<close>

definition main :: "libs \<Rightarrow> args \<Rightarrow> filesystem \<Rightarrow> error option \<times> filesystem" where
  "main L a fs =
     (case sum_links L fs [] (infiles a) of
        Inl e \<Rightarrow> (Some e, fs)
      | Inr links \<Rightarrow>
          (case convert_links_to_html L links a of
             Inl e \<Rightarrow> (Some e, fs)
           | Inr html \<Rightarrow>
               (case render_template L ''index.html'' (template_dir a) (outdir a)
                       [(''buttons'', Markup html)] fs of
                  (Some e, fs1) \<Rightarrow> (Some e, fs1)
                | (None, fs1) \<Rightarrow>
                    render_template L ''index.css'' ''templates/'' ''out/''
                      [(''button_width'', JInt (button_width a)),
                       (''button_height'', JInt (button_height a)),
                       (''hover_button_color'', JStr (hover_button_color a)),
                       (''button_color'', JStr (button_color a))] fs1)))"

section \<open>Escaping, defaults and example inputs\<close>

text \<open>
  The escaping the template engine applies to a plain string value
  (\<^verbatim>\<open>markupsafe.escape\<close>): five characters are replaced by entities.
\<close>

definition html_escape :: "string \<Rightarrow> string" where
  "html_escape s =
     concat (map (\<lambda>c. if c = CHR ''&'' then ''&amp;''
                       else if c = CHR ''<'' then ''&lt;''
                       else if c = CHR ''>'' then ''&gt;''
                       else if c = CHR 0x27 then ''&#39;''
                       else if c = CHR 0x22 then ''&#34;''
                       else [c]) s)"

text \<open>\<^verbatim>\<open>parse_cli\<close> on a command line that gives the input files and no flag.\<close>

definition parse_cli :: "string list \<Rightarrow> args" where
  "parse_cli files =
     \<lparr>infiles = files, button_width = 220, button_height = 100,
      button_color = ''DarkOrange'', hover_button_color = ''Orange'',
      max_button_per_line = 2, fontsize = 20, outdir = ''out/'',
      template_dir = ''templates/''\<rparr>"

text \<open>
  A small instance of the libraries, for concrete runs. The parsers know the few texts
  used below and every template parses. The engine knows the two page templates used
  below, whose only placeholder is \<^verbatim>\<open>{{ buttons }}\<close>: markup is inserted as it is, a plain
  string escaped, a missing value left out. Any other source is taken to hold no
  placeholder and is written as it is.
\<close>

definition example_csv :: "string \<Rightarrow> (error + string list) list" where
  "example_csv txt =
     (if txt = ''CV,home,https://x'' then [Inr [''CV'', ''home'', ''https://x'']]
      else if txt = ''a,b,c,d'' then [Inr [''a'', ''b'', ''c'', ''d'']]
      else if txt = ''a,b'' then [Inr [''a'', ''b'']]
      else [])"

definition example_json :: "string \<Rightarrow> error + pyval" where
  \<open>example_json txt =
     (if txt = ''[{"text":"CV","fa icon":"home","url":"https://x"}]''
      then Inr (PList [PDict [(''text'', PStr ''CV''), (''fa icon'', PStr ''home''),
                              (''url'', PStr ''https://x'')]])
      else if txt = ''[{"text":"Q&A","fa icon":"home","url":"/"}]''
      then Inr (PList [PDict [(''text'', PStr ''Q&A''), (''fa icon'', PStr ''home''),
                              (''url'', PStr ''/'')]])
      else if txt = ''[{}]'' then Inr (PList [PDict []])
      else Inl (LibraryError ''JSONDecodeError''))\<close>

definition example_render :: "string \<Rightarrow> (string \<times> jvalue) list \<Rightarrow> error + string" where
  "example_render src variables =
     (let buttons = (case map_of variables ''buttons'' of
                       None \<Rightarrow> ''''
                     | Some (Markup m) \<Rightarrow> m
                     | Some (JInt i) \<Rightarrow> str_int i
                     | Some (JStr t) \<Rightarrow> html_escape t)
      in if src = ''<body>{{ buttons }}</body>'' then Inr (''<body>'' @ buttons @ ''</body>'')
         else if src = ''<main>{{ buttons }}</main>'' then Inr (''<main>'' @ buttons @ ''</main>'')
         else Inr src)"

definition example_libs :: libs where
  "example_libs =
     \<lparr>float_bool = (\<lambda>x. True), str_other = (\<lambda>v. ''?''), csv_reader = example_csv,
      json_loads = example_json, Template = (\<lambda>src. None), render = example_render\<rparr>"

text \<open>Three records, for a grid of two lines.\<close>

definition example_links :: "pyval list" where
  "example_links =
     [PDict [(''text'', PStr ''A'')], PDict [(''text'', PStr ''B'')],
      PDict [(''text'', PStr ''C'')]]"

text \<open>A record with a hover colour only, and one whose style values are all false but the hover colour.\<close>

definition hover_record :: "(string \<times> pyval) list" where
  "hover_record = [(''text'', PStr ''CV''), (''hovered color'', PStr ''Pink'')]"

definition falsy_record :: "(string \<times> pyval) list" where
  "falsy_record =
     [(''text'', PStr ''CV''), (''button width'', PInt 0), (''fontsize'', PStr ''''),
      (''color'', PNone), (''hovered color'', PStr ''Pink'')]"


text \<open>
  A file system for concrete runs: the directories of \<open>dirs\<close> exist, a file can be written
  in any of them, and a few input files and templates are there.
\<close>

definition example_fs :: "string list \<Rightarrow> filesystem" where
  \<open>example_fs dirs =
     \<lparr>path_exists = (\<lambda>p. p \<in> set dirs),
      file_text = map_of
        [(''links.csv'', ''CV,home,https://x''),
         (''links.json'', ''[{"text":"CV","fa icon":"home","url":"https://x"}]''),
         (''four.csv'', ''a,b,c,d''),
         (''short.csv'', ''a,b''),
         (''empty.json'', ''[{}]''),
         (''amp.json'', ''[{"text":"Q&A","fa icon":"home","url":"/"}]''),
         (''templates/index.html'', ''<body>{{ buttons }}</body>''),
         (''templates/index.css'', ''.btn {}''),
         (''tpl/index.html'', ''<main>{{ buttons }}</main>''),
         (''tpl/index.css'', ''.button {}'')],
      can_write = (\<lambda>p. list_ex (\<lambda>d. prefix d p) dirs)\<rparr>\<close>

text \<open>A command line that names its own output and template directories.\<close>

definition build_args :: args where
  "build_args = (parse_cli [''links.json''])\<lparr>outdir := ''build/'', template_dir := ''tpl/''\<rparr>"

text \<open>Three records of which the first has no key.\<close>

definition keyless_links :: "pyval list" where
  "keyless_links = [PDict [], PDict [(''text'', PStr ''A'')], PDict [(''text'', PStr ''B'')]]"

text \<open>The maximal record of the program's documentation, and a record with a colour and no hover colour.\<close>

definition full_record :: "(string \<times> pyval) list" where
  "full_record =
     [(''text'', PStr ''bakasp''), (''fa icon'', PStr ''home''),
      (''url'', PStr ''https://asp.bourneuf.net''), (''button width'', PStr ''400''),
      (''color'', PStr ''ForestGreen''), (''hovered color'', PStr ''Pink''),
      (''fontsize'', PStr ''25'')]"

definition styled_record :: "(string \<times> pyval) list" where
  "styled_record = [(''text'', PStr ''CV''), (''color'', PStr ''ForestGreen'')]"

section \<open>The grid is cut into lines\<close>

lemma ceil_step:
  fixes N k :: nat
  assumes "0 < N" "0 < k"
  shows "(N + k - 1) div k = Suc ((N - k + k - 1) div k)"
proof (cases "k \<le> N")
  case True
  then have "N + k - 1 = (N - k + k - 1) + k" using assms by simp
  then have "(N + k - 1) div k = (N - k + k - 1) div k + 1" using assms by (simp only: div_add_self2)
  then show ?thesis by simp
next
  case False
  then have a: "N - k + k - 1 = k - 1" by simp
  have b: "(k - 1) div k = 0" using assms by simp
  have c: "N + k - 1 = k + (N - 1)" using assms by simp
  have d: "(N - 1) div k = 0" using False by simp
  have "(k + (N - 1)) div k = (N - 1) div k + 1"
    using assms by (simp only: div_add_self1)
  then have "(N + k - 1) div k = 1" using c d by simp
  then show ?thesis using a b by simp
qed

lemma grouper_slices:
  "0 < n \<Longrightarrow>
   grouper xs n fill =
     map (\<lambda>i. take (nat n) (drop (i * nat n) xs)
               @ replicate (nat n - (length xs - i * nat n)) fill)
         [0..<(length xs + nat n - 1) div nat n]"
proof (induction xs n fill rule: grouper.induct)
  case (1 xs n fill)
  show ?case
  proof (cases "xs = []")
    case True
    then show ?thesis using "1.prems" by (simp add: grouper.simps)
  next
    case False
    let ?k = "nat n"
    have k: "0 < ?k" using "1.prems" by simp
    have N: "0 < length xs" using False by simp
    have IH: "grouper (drop ?k xs) n fill =
      map (\<lambda>i. take ?k (drop (i * ?k) (drop ?k xs))
               @ replicate (?k - (length (drop ?k xs) - i * ?k)) fill)
         [0..<(length (drop ?k xs) + ?k - 1) div ?k]"
      using "1.IH" "1.prems" False by simp
    have cnt: "(length xs + ?k - 1) div ?k = Suc ((length (drop ?k xs) + ?k - 1) div ?k)"
      using ceil_step[OF N k] by simp
    have unf: "grouper xs n fill =
       (take ?k xs @ replicate (?k - length (take ?k xs)) fill) # grouper (drop ?k xs) n fill"
      using False "1.prems" by (subst grouper.simps) simp
    have hd: "take ?k xs @ replicate (?k - length (take ?k xs)) fill
       = take ?k (drop (0 * ?k) xs) @ replicate (?k - (length xs - 0 * ?k)) fill"
      by (simp add: min_def)
    have tl: "\<And>i. take ?k (drop (i * ?k) (drop ?k xs))
               @ replicate (?k - (length (drop ?k xs) - i * ?k)) fill
        = take ?k (drop (Suc i * ?k) xs) @ replicate (?k - (length xs - Suc i * ?k)) fill"
      by (simp add: add.commute)
    have "grouper xs n fill = (take ?k (drop (0 * ?k) xs) @ replicate (?k - (length xs - 0 * ?k)) fill)
         # map (\<lambda>i. take ?k (drop (Suc i * ?k) xs) @ replicate (?k - (length xs - Suc i * ?k)) fill)
             [0..<(length (drop ?k xs) + ?k - 1) div ?k]"
      by (simp only: unf IH tl hd)
    also have "\<dots> = map (\<lambda>i. take ?k (drop (i * ?k) xs) @ replicate (?k - (length xs - i * ?k)) fill)
             [0..<Suc ((length (drop ?k xs) + ?k - 1) div ?k)]"
      by (simp only: map_upt_Suc)
    finally show ?thesis by (simp only: cnt)
  qed
qed


lemma slice_start:
  fixes N k i :: nat
  assumes "0 < k" "i < (N + k - 1) div k"
  shows "i * k < N"
proof -
  have "Suc i \<le> (N + k - 1) div k" using assms by simp
  then have "Suc i * k \<le> (N + k - 1) div k * k" by (rule mult_le_mono1)
  also have "\<dots> \<le> N + k - 1" by (rule div_times_less_eq_dividend)
  finally have "i * k + k \<le> N + k - 1" by simp
  then show ?thesis using assms(1) by arith
qed

lemma slice_full:
  fixes N k i :: nat
  assumes "0 < k" "Suc i < (N + k - 1) div k"
  shows "i * k + k \<le> N"
proof -
  have "Suc i * k < N" using assms by (rule slice_start)
  then show ?thesis by simp
qed

lemma slices_cover:
  fixes N k :: nat
  assumes "0 < k"
  shows "N \<le> (N + k - 1) div k * k"
proof -
  have "N + k - 1 = (N + k - 1) div k * k + (N + k - 1) mod k" by simp
  moreover have "(N + k - 1) mod k < k" using assms by simp
  ultimately show ?thesis by arith
qed

lemma concat_slices:
  "concat (map (\<lambda>i. take k (drop (i * k) xs)) [0..<m]) = take (m * k) xs"
proof (induction m)
  case 0
  show ?case by simp
next
  case (Suc m)
  have "take (m * k) xs @ take k (drop (m * k) xs) = take (m * k + k) xs"
    by (simp add: take_add)
  then show ?case using Suc by (simp add: add.commute)
qed

lemma collect_all_Inr:
  "\<forall>x\<in>set xs. f x = Inr (g x) \<Longrightarrow> collect (map f xs) = Inr (map g xs)"
  by (induction xs) simp_all

lemma filter_padding: "filter (py_bool L) (xs @ replicate p PNone) = filter (py_bool L) xs"
  by (induction p) simp_all

lemma line_html_slice:
  assumes "\<forall>r\<in>set xs. json_repr_to_html L r a = Inr (frag r)"
  shows "line_html L a (xs @ replicate p PNone)
           = Inr (str_join ''\<newline>'' (map frag (filter (py_bool L) xs)))"
proof -
  have "\<forall>r\<in>set (filter (py_bool L) xs). json_repr_to_html L r a = Inr (frag r)"
    using assms by simp
  then have "collect (map (\<lambda>r. json_repr_to_html L r a) (filter (py_bool L) xs))
               = Inr (map frag (filter (py_bool L) xs))"
    by (rule collect_all_Inr)
  then show ?thesis by (simp add: line_html_def filter_padding)
qed

lemma dict_fragment:
  "\<exists>d. r = PDict d \<Longrightarrow> \<exists>s. json_repr_to_html L r a = Inr s"
  by auto

text \<open>
  What holds of the grid whatever the records are. With at least one button per line,
  \<open>grouper\<close> cuts the records, in their order, into consecutive slices of \<open>k\<close> records:
  there are \<open>\<lceil>N / k\<rceil>\<close> of them, every one but the last holds exactly \<open>k\<close> records and
  the last between one and \<open>k\<close>, their concatenation is the input, and the last one is
  padded with \<open>None\<close>. The grid is the groups joined by the break element, each group
  being joined by a line break from the fragments of those of its entries whose truth
  value is true. Only when no record is empty is that every record of the group.
\<close>

theorem grid_groups:
  fixes links :: "pyval list"
  assumes "1 \<le> max_button_per_line a"
    and "\<forall>r\<in>set links. \<exists>d. r = PDict d"
  shows "let k = nat (max_button_per_line a);
             m = (length links + k - 1) div k;
             slice = (\<lambda>i. take k (drop (i * k) links))
         in grouper links (max_button_per_line a) PNone
              = map (\<lambda>i. slice i @ replicate (k - length (slice i)) PNone) [0..<m]
          \<and> concat (map slice [0..<m]) = links
          \<and> (\<forall>i<m. length (slice i) = (if Suc i < m then k else length links - i * k)
                   \<and> 0 < length (slice i) \<and> length (slice i) \<le> k)
          \<and> (\<exists>frag. (\<forall>r\<in>set links. json_repr_to_html L r a = Inr (frag r))
                \<and> convert_links_to_html L links a
                    = Inr (str_join ''<br/>''
                        (map (\<lambda>i. str_join ''\<newline>'' (map frag (filter (py_bool L) (slice i))))
                             [0..<m])))
          \<and> ((\<forall>r\<in>set links. r \<noteq> PDict []) \<longrightarrow>
                (\<forall>i<m. filter (py_bool L) (slice i) = slice i))"
proof -
  define k where "k = nat (max_button_per_line a)"
  define m where "m = (length links + k - 1) div k"
  define slice where "slice = (\<lambda>i. take k (drop (i * k) links))"
  have k: "0 < k" and n: "0 < max_button_per_line a" using assms(1) by (simp_all add: k_def)
  have pad: "\<And>i. k - (length links - i * k) = k - length (slice i)"
    by (simp add: slice_def min_def)
  have groups: "grouper links (max_button_per_line a) PNone
      = map (\<lambda>i. slice i @ replicate (k - length (slice i)) PNone) [0..<m]"
    using grouper_slices[OF n, of links PNone]
    by (simp add: k_def[symmetric] pad) (simp add: slice_def m_def)
  have order: "concat (map slice [0..<m]) = links"
    using slices_cover[OF k, of "length links"]
    by (simp add: slice_def concat_slices m_def)
  have sizes: "\<forall>i<m. length (slice i) = (if Suc i < m then k else length links - i * k)
                   \<and> 0 < length (slice i) \<and> length (slice i) \<le> k"
  proof (intro allI impI)
    fix i assume i: "i < m"
    have s: "i * k < length links" using slice_start[OF k] i by (simp add: m_def)
    have f: "Suc i < m \<Longrightarrow> i * k + k \<le> length links"
      using slice_full[OF k] by (simp add: m_def)
    show "length (slice i) = (if Suc i < m then k else length links - i * k)
                   \<and> 0 < length (slice i) \<and> length (slice i) \<le> k"
    proof (cases "Suc i < m")
      case True
      then show ?thesis using f s k by (simp add: slice_def)
    next
      case False
      then have "m = Suc i" using i by simp
      then have "length links \<le> Suc i * k"
        using slices_cover[OF k, of "length links"] by (simp add: m_def)
      then show ?thesis using False s k by (simp add: slice_def min_def)
    qed
  qed
  obtain frag where frag: "\<forall>r\<in>set links. json_repr_to_html L r a = Inr (frag r)"
    using assms(2) dict_fragment[of _ L a] by metis
  have "\<forall>i\<in>set [0..<m]. line_html L a (slice i @ replicate (k - length (slice i)) PNone)
           = Inr (str_join ''\<newline>'' (map frag (filter (py_bool L) (slice i))))"
  proof
    fix i
    have "set (slice i) \<subseteq> set links"
      unfolding slice_def by (meson set_drop_subset set_take_subset subset_trans)
    then have "\<forall>r\<in>set (slice i). json_repr_to_html L r a = Inr (frag r)"
      using frag by blast
    then show "line_html L a (slice i @ replicate (k - length (slice i)) PNone)
           = Inr (str_join ''\<newline>'' (map frag (filter (py_bool L) (slice i))))"
      by (rule line_html_slice)
  qed
  then have "collect (map (\<lambda>i. line_html L a (slice i @ replicate (k - length (slice i)) PNone))
                 [0..<m])
      = Inr (map (\<lambda>i. str_join ''\<newline>'' (map frag (filter (py_bool L) (slice i)))) [0..<m])"
    by (rule collect_all_Inr)
  then have out: "convert_links_to_html L links a
      = Inr (str_join ''<br/>''
          (map (\<lambda>i. str_join ''\<newline>'' (map frag (filter (py_bool L) (slice i)))) [0..<m]))"
    by (simp add: convert_links_to_html_def groups o_def)
  have keep: "(\<forall>r\<in>set links. r \<noteq> PDict []) \<longrightarrow>
                (\<forall>i<m. filter (py_bool L) (slice i) = slice i)"
  proof (intro impI allI)
    fix i
    assume ne: "\<forall>r\<in>set links. r \<noteq> PDict []"
    have "set (slice i) \<subseteq> set links"
      unfolding slice_def by (meson set_drop_subset set_take_subset subset_trans)
    then have "\<forall>r\<in>set (slice i). py_bool L r"
      using assms(2) ne by fastforce
    then show "filter (py_bool L) (slice i) = slice i" by simp
  qed
  from groups order sizes frag out keep show ?thesis
    unfolding Let_def slice_def m_def k_def by blast
qed

lemma upt2: "[0..<2] = [0, Suc 0]" by (simp add: upt_rec numeral_2_eq_2)

theorem grid_groups_witness:
  \<open>1 \<le> max_button_per_line (parse_cli [])
   \<and> grouper example_links (max_button_per_line (parse_cli [])) PNone
       = [[PDict [(''text'', PStr ''A'')], PDict [(''text'', PStr ''B'')]],
          [PDict [(''text'', PStr ''C'')], PNone]]
   \<and> convert_links_to_html example_libs example_links (parse_cli [])
       = Inr (''<a href="/"><button class="btn" > <i class="fa-solid fa-home"></i> &nbsp; A </button></a>''
              @ ''\<newline>''
              @ ''<a href="/"><button class="btn" > <i class="fa-solid fa-home"></i> &nbsp; B </button></a>''
              @ ''<br/>''
              @ ''<a href="/"><button class="btn" > <i class="fa-solid fa-home"></i> &nbsp; C </button></a>'')\<close>
proof -
  have h1: "1 \<le> max_button_per_line (parse_cli [])" by (simp add: parse_cli_def)
  have h2: "\<forall>r\<in>set example_links. \<exists>d. r = PDict d" by (simp add: example_links_def)
  have k: "nat (max_button_per_line (parse_cli [])) = 2" by (simp add: parse_cli_def)
  have len: "length example_links = 3" by (simp add: example_links_def)
  have d2: "drop 2 example_links = [PDict [(''text'', PStr ''C'')]]"
    by (simp add: example_links_def)
  have t2: "take 2 example_links = [PDict [(''text'', PStr ''A'')], PDict [(''text'', PStr ''B'')]]"
    by (simp add: example_links_def)
  have T: "grouper example_links (max_button_per_line (parse_cli [])) PNone
             = [take 2 example_links @ replicate (2 - length (take 2 example_links)) PNone,
                take 2 (drop 2 example_links)
                  @ replicate (2 - length (take 2 (drop 2 example_links))) PNone]
      \<and> (\<exists>frag. (\<forall>r\<in>set example_links.
                    json_repr_to_html example_libs r (parse_cli []) = Inr (frag r))
            \<and> convert_links_to_html example_libs example_links (parse_cli [])
                = Inr (str_join ''<br/>''
                   [str_join ''\<newline>''
                      (map frag (filter (py_bool example_libs) (take 2 example_links))),
                    str_join ''\<newline>''
                      (map frag (filter (py_bool example_libs) (take 2 (drop 2 example_links))))]))"
    using grid_groups[OF h1 h2, of example_libs]
    unfolding Let_def k len by (simp add: upt2)
  from T have g: "grouper example_links (max_button_per_line (parse_cli [])) PNone
       = [[PDict [(''text'', PStr ''A'')], PDict [(''text'', PStr ''B'')]],
          [PDict [(''text'', PStr ''C'')], PNone]]"
    by (simp add: d2 t2)
  from T obtain frag where
    f: "\<forall>r\<in>set example_links. json_repr_to_html example_libs r (parse_cli []) = Inr (frag r)"
    and out: "convert_links_to_html example_libs example_links (parse_cli [])
                = Inr (str_join ''<br/>''
                   [str_join ''\<newline>''
                      (map frag (filter (py_bool example_libs) (take 2 example_links))),
                    str_join ''\<newline>''
                      (map frag (filter (py_bool example_libs) (take 2 (drop 2 example_links))))])"
    by blast
  have fa: \<open>frag (PDict [(''text'', PStr ''A'')]) = ''<a href="/"><button class="btn" > <i class="fa-solid fa-home"></i> &nbsp; A </button></a>''\<close>
    and fb: \<open>frag (PDict [(''text'', PStr ''B'')]) = ''<a href="/"><button class="btn" > <i class="fa-solid fa-home"></i> &nbsp; B </button></a>''\<close>
    and fc: \<open>frag (PDict [(''text'', PStr ''C'')]) = ''<a href="/"><button class="btn" > <i class="fa-solid fa-home"></i> &nbsp; C </button></a>''\<close>
    using f by (simp_all add: example_links_def convert_link_to_html_def dict_get_def)
  have \<open>convert_links_to_html example_libs example_links (parse_cli [])
       = Inr (''<a href="/"><button class="btn" > <i class="fa-solid fa-home"></i> &nbsp; A </button></a>''
              @ ''\<newline>''
              @ ''<a href="/"><button class="btn" > <i class="fa-solid fa-home"></i> &nbsp; B </button></a>''
              @ ''<br/>''
              @ ''<a href="/"><button class="btn" > <i class="fa-solid fa-home"></i> &nbsp; C </button></a>'')\<close>
    unfolding out by (simp add: d2 t2 fa fb fc)
  with h1 g show ?thesis by blast
qed

section \<open>Style and hover attributes\<close>

lemma map_of_filter_key:
  "map_of (filter (\<lambda>kv. fst kv \<noteq> k) d) k' = (if k' = k then None else map_of d k')"
  by (induction d) auto

lemma dict_get_filter_key:
  "dict_get (filter (\<lambda>kv. fst kv \<noteq> k) d) k' dflt
     = (if k' = k then dflt else dict_get d k' dflt)"
  by (simp add: dict_get_def map_of_filter_key)

text \<open>
  Claim C10. A width, font size, colour or hover colour whose value is false (\<open>0\<close>, the
  empty string, \<^verbatim>\<open>None\<close>, ...) is rendered as if the key were not in the record; when
  the width, the font size and the colour are all absent or false the button tag has no
  style attribute; and a hover handler next to an absent or false colour restores the
  global default colour.
\<close>

theorem falsy_is_absent:
  \<open>(\<forall>k \<in> {''button width'', ''fontsize'', ''color'', ''hovered color''}.
       \<not> py_bool L (dict_get d k PNone) \<longrightarrow>
       json_repr_to_html L (PDict d) a
         = json_repr_to_html L (PDict (filter (\<lambda>kv. fst kv \<noteq> k) d)) a)
   \<and> (\<not> py_bool L (dict_get d ''button width'' PNone)
        \<and> \<not> py_bool L (dict_get d ''fontsize'' PNone)
        \<and> \<not> py_bool L (dict_get d ''color'' PNone) \<longrightarrow>
       json_repr_to_html L (PDict d) a
         = Inr (''<a href="'' @ py_str L (dict_get d ''url'' (PStr ''/''))
                @ ''"><button class="btn" ''
                @ (if py_bool L (dict_get d ''hovered color'' PNone)
                   then '' onMouseOver=this.style.backgroundColor="''
                        @ py_str L (dict_get d ''hovered color'' PNone) @ ''"''
                        @ '' onMouseOut=this.style.backgroundColor="'' @ button_color a @ ''"''
                   else '''')
                @ ''> <i class="fa-solid fa-'' @ py_str L (dict_get d ''fa icon'' (PStr ''home''))
                @ ''"></i> &nbsp; '' @ py_str L (dict_get d ''text'' (PStr '''')) @ '' </button></a>''))
   \<and> (\<not> py_bool L (dict_get d ''color'' PNone)
        \<and> py_bool L (dict_get d ''hovered color'' PNone) \<longrightarrow>
       (\<exists>pre post. json_repr_to_html L (PDict d) a
          = Inr (pre @ '' onMouseOut=this.style.backgroundColor="'' @ button_color a @ ''"''
                 @ ''> <i class="fa-solid fa-'' @ post)))\<close>
proof (intro conjI ballI impI)
  fix k :: string
  assume k: \<open>k \<in> {''button width'', ''fontsize'', ''color'', ''hovered color''}\<close>
    and f: "\<not> py_bool L (dict_get d k PNone)"
  from k consider "k = ''button width''" | "k = ''fontsize''" | "k = ''color''"
    | "k = ''hovered color''" by blast
  then show "json_repr_to_html L (PDict d) a
         = json_repr_to_html L (PDict (filter (\<lambda>kv. fst kv \<noteq> k) d)) a"
  proof cases
    case 1
    with f show ?thesis by (simp add: dict_get_filter_key convert_link_to_html_def)
  next
    case 2
    with f show ?thesis by (simp add: dict_get_filter_key convert_link_to_html_def)
  next
    case 3
    with f show ?thesis by (simp add: dict_get_filter_key convert_link_to_html_def)
  next
    case 4
    with f show ?thesis by (simp add: dict_get_filter_key convert_link_to_html_def)
  qed
next
  assume "\<not> py_bool L (dict_get d ''button width'' PNone)
        \<and> \<not> py_bool L (dict_get d ''fontsize'' PNone)
        \<and> \<not> py_bool L (dict_get d ''color'' PNone)"
  then show \<open>json_repr_to_html L (PDict d) a
         = Inr (''<a href="'' @ py_str L (dict_get d ''url'' (PStr ''/''))
                @ ''"><button class="btn" ''
                @ (if py_bool L (dict_get d ''hovered color'' PNone)
                   then '' onMouseOver=this.style.backgroundColor="''
                        @ py_str L (dict_get d ''hovered color'' PNone) @ ''"''
                        @ '' onMouseOut=this.style.backgroundColor="'' @ button_color a @ ''"''
                   else '''')
                @ ''> <i class="fa-solid fa-'' @ py_str L (dict_get d ''fa icon'' (PStr ''home''))
                @ ''"></i> &nbsp; '' @ py_str L (dict_get d ''text'' (PStr '''')) @ '' </button></a>'')\<close>
    by (simp add: convert_link_to_html_def)
next
  assume h: "\<not> py_bool L (dict_get d ''color'' PNone)
        \<and> py_bool L (dict_get d ''hovered color'' PNone)"
  define style1 where \<open>style1 =
     (if py_bool L (dict_get d ''button width'' PNone) \<or> py_bool L (dict_get d ''fontsize'' PNone)
      then '' style="'' @
        concat ((if py_bool L (dict_get d ''button width'' PNone)
                 then [''width: '' @ py_str L (dict_get d ''button width'' PNone) @ ''px;''] else [])
             @ (if py_bool L (dict_get d ''fontsize'' PNone)
                then [''font-size: '' @ py_str L (dict_get d ''fontsize'' PNone) @ ''px;''] else []))
        @ ''"''
      else '''')\<close>
  have \<open>json_repr_to_html L (PDict d) a
          = Inr ((''<a href="'' @ py_str L (dict_get d ''url'' (PStr ''/''))
                  @ ''"><button class="btn" '' @ style1
                  @ '' onMouseOver=this.style.backgroundColor="''
                  @ py_str L (dict_get d ''hovered color'' PNone) @ ''"'')
                 @ '' onMouseOut=this.style.backgroundColor="'' @ button_color a @ ''"''
                 @ ''> <i class="fa-solid fa-''
                 @ (py_str L (dict_get d ''fa icon'' (PStr ''home''))
                    @ ''"></i> &nbsp; '' @ py_str L (dict_get d ''text'' (PStr '''')) @ '' </button></a>''))\<close>
    using h by (simp add: convert_link_to_html_def style1_def)
  then show \<open>\<exists>pre post. json_repr_to_html L (PDict d) a
          = Inr (pre @ '' onMouseOut=this.style.backgroundColor="'' @ button_color a @ ''"''
                 @ ''> <i class="fa-solid fa-'' @ post)\<close>
    by blast
qed

text \<open>The record \<open>falsy_record\<close>: width \<open>0\<close>, font size \<open>''\<close>, colour \<^verbatim>\<open>None\<close>.\<close>

theorem falsy_is_absent_witness:
  \<open>\<not> py_bool example_libs (dict_get falsy_record ''button width'' PNone)
   \<and> \<not> py_bool example_libs (dict_get falsy_record ''fontsize'' PNone)
   \<and> \<not> py_bool example_libs (dict_get falsy_record ''color'' PNone)
   \<and> py_bool example_libs (dict_get falsy_record ''hovered color'' PNone)
   \<and> json_repr_to_html example_libs (PDict falsy_record) (parse_cli [])
       = json_repr_to_html example_libs
           (PDict (filter (\<lambda>kv. fst kv \<noteq> ''button width'') falsy_record)) (parse_cli [])
   \<and> json_repr_to_html example_libs (PDict falsy_record) (parse_cli [])
       = Inr (''<a href="/"><button class="btn" ''
              @ '' onMouseOver=this.style.backgroundColor="Pink"''
              @ '' onMouseOut=this.style.backgroundColor="DarkOrange"''
              @ ''> <i class="fa-solid fa-home"></i> &nbsp; CV </button></a>'')\<close>
proof -
  have w: "\<not> py_bool example_libs (dict_get falsy_record ''button width'' PNone)"
    and f: "\<not> py_bool example_libs (dict_get falsy_record ''fontsize'' PNone)"
    and c: "\<not> py_bool example_libs (dict_get falsy_record ''color'' PNone)"
    and h: "py_bool example_libs (dict_get falsy_record ''hovered color'' PNone)"
    by (simp_all add: falsy_record_def dict_get_def)
  note T = falsy_is_absent [of example_libs falsy_record "parse_cli []"]
  from T w have 1: "json_repr_to_html example_libs (PDict falsy_record) (parse_cli [])
       = json_repr_to_html example_libs
           (PDict (filter (\<lambda>kv. fst kv \<noteq> ''button width'') falsy_record)) (parse_cli [])"
    by blast
  from T w f c have \<open>json_repr_to_html example_libs (PDict falsy_record) (parse_cli [])
         = Inr (''<a href="'' @ py_str example_libs (dict_get falsy_record ''url'' (PStr ''/''))
                @ ''"><button class="btn" ''
                @ (if py_bool example_libs (dict_get falsy_record ''hovered color'' PNone)
                   then '' onMouseOver=this.style.backgroundColor="''
                        @ py_str example_libs (dict_get falsy_record ''hovered color'' PNone) @ ''"''
                        @ '' onMouseOut=this.style.backgroundColor="''
                        @ button_color (parse_cli []) @ ''"''
                   else '''')
                @ ''> <i class="fa-solid fa-''
                @ py_str example_libs (dict_get falsy_record ''fa icon'' (PStr ''home''))
                @ ''"></i> &nbsp; '' @ py_str example_libs (dict_get falsy_record ''text'' (PStr ''''))
                @ '' </button></a>'')\<close>
    by blast
  then have 2: \<open>json_repr_to_html example_libs (PDict falsy_record) (parse_cli [])
       = Inr (''<a href="/"><button class="btn" ''
              @ '' onMouseOver=this.style.backgroundColor="Pink"''
              @ '' onMouseOut=this.style.backgroundColor="DarkOrange"''
              @ ''> <i class="fa-solid fa-home"></i> &nbsp; CV </button></a>'')\<close>
    by (simp add: falsy_record_def dict_get_def parse_cli_def)
  from w f c h 1 2 show ?thesis by blast
qed

section \<open>The values of a record in its fragment\<close>


section \<open>Loading CSV and JSON files\<close>

lemma suffix_last: "suffix xs ys \<Longrightarrow> xs \<noteq> [] \<Longrightarrow> last ys = last xs"
  by (auto simp: suffix_def)

lemma json_not_csv: "endswith p ''.json'' \<Longrightarrow> \<not> endswith p ''.csv''"
proof
  assume a: "endswith p ''.json''" and b: "endswith p ''.csv''"
  have "last p = last ''.json''"
    using a suffix_last [of "''.json''" p] by (simp add: endswith_def)
  moreover have "last p = last ''.csv''"
    using b suffix_last [of "''.csv''" p] by (simp add: endswith_def)
  ultimately show False by simp
qed

text \<open>
  Claim C9. Where \<^verbatim>\<open>csv.reader\<close> splits the row into its three fields and
  \<^verbatim>\<open>json.loads\<close> returns the array holding the object, the CSV file and the JSON
  file load to the same sequence of one record, and that record renders, under any
  defaults, to one and the same fragment.
\<close>

theorem csv_row_equals_json_object:
  assumes "csv_reader L ''CV,home,https://x'' = [Inr [''CV'', ''home'', ''https://x'']]"
    and \<open>json_loads L ''[{"text":"CV","fa icon":"home","url":"https://x"}]''
          = Inr (PList [PDict [(''text'', PStr ''CV''), (''fa icon'', PStr ''home''),
                               (''url'', PStr ''https://x'')]])\<close>
    and "endswith pc ''.csv''" and "file_text fs pc = Some ''CV,home,https://x''"
    and "endswith pj ''.json''"
    and \<open>file_text fs pj = Some ''[{"text":"CV","fa icon":"home","url":"https://x"}]''\<close>
  shows \<open>links_repr_from_file L fs pc = links_repr_from_file L fs pj
       \<and> (\<exists>r. links_repr_from_file L fs pc = Inr [r]
              \<and> links_repr_from_file L fs pj = Inr [r]
              \<and> json_repr_to_html L r a
                  = Inr ''<a href="https://x"><button class="btn" > <i class="fa-solid fa-home"></i> &nbsp; CV </button></a>'')\<close>
proof -
  let ?r = "PDict [(''text'', PStr ''CV''), (''fa icon'', PStr ''home''),
                   (''url'', PStr ''https://x'')]"
  have c: "links_repr_from_file L fs pc = Inr [?r]"
    using assms(1,3,4) by (simp add: links_repr_from_file_def)
  have "\<not> endswith pj ''.csv''" using assms(5) by (rule json_not_csv)
  then have j: "links_repr_from_file L fs pj = Inr [?r]"
    using assms(2,5,6) by (simp add: links_repr_from_file_def)
  have h: \<open>json_repr_to_html L ?r a
      = Inr ''<a href="https://x"><button class="btn" > <i class="fa-solid fa-home"></i> &nbsp; CV </button></a>''\<close>
    by (simp add: convert_link_to_html_def dict_get_def)
  from c j h show ?thesis by simp
qed

text \<open>The files \<^verbatim>\<open>links.csv\<close> and \<^verbatim>\<open>links.json\<close> of the example file system.\<close>

theorem csv_row_equals_json_object_witness:
  \<open>endswith ''links.csv'' ''.csv'' \<and> endswith ''links.json'' ''.json''
   \<and> links_repr_from_file example_libs (example_fs []) ''links.csv''
       = links_repr_from_file example_libs (example_fs []) ''links.json''
   \<and> (\<exists>r. links_repr_from_file example_libs (example_fs []) ''links.csv'' = Inr [r]
          \<and> links_repr_from_file example_libs (example_fs []) ''links.json'' = Inr [r]
          \<and> json_repr_to_html example_libs r (parse_cli [])
              = Inr ''<a href="https://x"><button class="btn" > <i class="fa-solid fa-home"></i> &nbsp; CV </button></a>'')\<close>
proof -
  have 1: "csv_reader example_libs ''CV,home,https://x'' = [Inr [''CV'', ''home'', ''https://x'']]"
    by (simp add: example_libs_def example_csv_def)
  have 2: \<open>json_loads example_libs ''[{"text":"CV","fa icon":"home","url":"https://x"}]''
          = Inr (PList [PDict [(''text'', PStr ''CV''), (''fa icon'', PStr ''home''),
                               (''url'', PStr ''https://x'')]])\<close>
    by (simp add: example_libs_def example_json_def)
  have 3: "endswith ''links.csv'' ''.csv''" and 5: "endswith ''links.json'' ''.json''"
    by (simp_all add: endswith_def suffix_to_prefix)
  have 4: "file_text (example_fs []) ''links.csv'' = Some ''CV,home,https://x''"
    and 6: \<open>file_text (example_fs []) ''links.json''
             = Some ''[{"text":"CV","fa icon":"home","url":"https://x"}]''\<close>
    by (simp_all add: example_fs_def)
  from csv_row_equals_json_object [OF 1 2 3 4 5 6, of "parse_cli []"] 3 5
  show ?thesis by blast
qed






section \<open>Unsupported input files\<close>

lemma unsupported_file:
  "\<not> endswith p ''.csv'' \<Longrightarrow> \<not> endswith p ''.json'' \<Longrightarrow>
   links_repr_from_file L fs p
     = Inl (NotImplementedError (''Cannot handle file '' @ p @ '' (not a json nor a csv)''))"
  by (simp add: links_repr_from_file_def)

lemma sum_links_fails:
  "p \<in> set ps \<Longrightarrow> links_repr_from_file L fs p = Inl e0 \<Longrightarrow>
   \<exists>e. sum_links L fs acc ps = Inl e"
proof (induction ps arbitrary: acc)
  case Nil
  then show ?case by simp
next
  case (Cons q ps)
  show ?case
  proof (cases "links_repr_from_file L fs q")
    case (Inl e)
    then show ?thesis by simp
  next
    case (Inr links)
    with Cons.prems have "p \<in> set ps" by auto
    then show ?thesis using Cons.IH Cons.prems(2) Inr by simp
  qed
qed

lemma sum_links_first_error:
  "\<forall>q\<in>set ps. \<exists>links. links_repr_from_file L fs q = Inr links \<Longrightarrow>
   links_repr_from_file L fs p = Inl e \<Longrightarrow>
   sum_links L fs acc (ps @ p # qs) = Inl e"
proof (induction ps arbitrary: acc)
  case Nil
  then show ?case by simp
next
  case (Cons q ps)
  then obtain links where "links_repr_from_file L fs q = Inr links" by auto
  then show ?case using Cons by simp
qed

text \<open>
  Claim C3, as stated, has the run fail with the unsupported-format error. The files are
  loaded in order and the first failure ends the run: with the missing file
  \<^verbatim>\<open>missing.csv\<close> before \<^verbatim>\<open>notes.txt\<close> the error is that of opening the first.
\<close>

theorem earlier_error_counterexample:
  "\<not> endswith ''notes.txt'' ''.csv'' \<and> \<not> endswith ''notes.txt'' ''.json''
   \<and> fst (main example_libs (parse_cli [''missing.csv'', ''notes.txt''])
            (example_fs [''out/'', ''templates/''])) = Some OSError"
  by (simp add: main_def parse_cli_def links_repr_from_file_def endswith_def
        suffix_to_prefix example_fs_def)

section \<open>Defects\<close>

lemma render_template_missing_dir:
  "\<not> path_exists fs target_dir \<Longrightarrow>
   render_template L name tdir target_dir variables fs = (Some AssertionError, fs)"
  by (simp add: render_template_def)

text \<open>
  Claim C5 does not hold of the code. The file \<^verbatim>\<open>empty.json\<close> holds one record with no
  key. \<open>json_repr_to_html\<close> renders it with the defaults of the three fields, but the
  grid tests the truth value of each entry to skip the padding of the last line, an
  empty dictionary is false as well, and the record gives no button: the grid is empty.
\<close>

theorem empty_record_dropped:
  \<open>links_repr_from_file example_libs (example_fs []) ''empty.json'' = Inr [PDict []]
   \<and> json_repr_to_html example_libs (PDict []) (parse_cli [''empty.json''])
       = Inr ''<a href="/"><button class="btn" > <i class="fa-solid fa-home"></i> &nbsp;  </button></a>''
   \<and> convert_links_to_html example_libs [PDict []] (parse_cli [''empty.json'']) = Inr ''''\<close>
  by (simp add: links_repr_from_file_def endswith_def suffix_to_prefix example_fs_def
        example_libs_def example_json_def convert_link_to_html_def dict_get_def
        convert_links_to_html_def line_html_def parse_cli_def grouper.simps)

text \<open>
  Claim C7 does not hold of the code. The second call of \<open>render_template\<close> passes no
  directory, so the stylesheet is read from \<^verbatim>\<open>templates/\<close> and written to \<^verbatim>\<open>out/\<close>
  whatever the command line says. With \<^verbatim>\<open>--outdir build/ --template-dir tpl/\<close> the
  page goes to \<^verbatim>\<open>build/index.html\<close>, filled from \<^verbatim>\<open>tpl/index.html\<close>, and the
  stylesheet to \<^verbatim>\<open>out/index.css\<close>, filled from \<^verbatim>\<open>templates/index.css\<close>; there is no
  \<^verbatim>\<open>build/index.css\<close>.
\<close>

theorem stylesheet_ignores_directories:
  \<open>outdir build_args = ''build/'' \<and> template_dir build_args = ''tpl/''
   \<and> fst (main example_libs build_args (example_fs [''build/'', ''out/''])) = None
   \<and> file_text (snd (main example_libs build_args (example_fs [''build/'', ''out/''])))
         ''build/index.html''
       = Some ''<main><a href="https://x"><button class="btn" > <i class="fa-solid fa-home"></i> &nbsp; CV </button></a></main>''
   \<and> file_text (snd (main example_libs build_args (example_fs [''build/'', ''out/''])))
         ''build/index.css'' = None
   \<and> file_text (snd (main example_libs build_args (example_fs [''build/'', ''out/''])))
         ''out/index.css'' = Some ''.btn {}''\<close>
proof -
  have links: "sum_links example_libs (example_fs [''build/'', ''out/'']) [] (infiles build_args)
      = Inr [PDict [(''text'', PStr ''CV''), (''fa icon'', PStr ''home''),
                    (''url'', PStr ''https://x'')]]"
    by (simp add: build_args_def parse_cli_def links_repr_from_file_def endswith_def
          suffix_to_prefix example_fs_def example_libs_def example_json_def)
  have html: \<open>convert_links_to_html example_libs
        [PDict [(''text'', PStr ''CV''), (''fa icon'', PStr ''home''),
                (''url'', PStr ''https://x'')]] build_args
      = Inr ''<a href="https://x"><button class="btn" > <i class="fa-solid fa-home"></i> &nbsp; CV </button></a>''\<close>
    by (simp add: convert_links_to_html_def line_html_def build_args_def parse_cli_def
          grouper.simps convert_link_to_html_def dict_get_def example_libs_def)
  show ?thesis
    by (simp add: main_def links html)
       (simp add: build_args_def parse_cli_def render_template_def os_path_join_def
          example_fs_def example_libs_def example_render_def open_w_def fd_write_def
          suffix_to_prefix Let_def)
qed

text \<open>
  Claim C8 does not hold of the code, by the defect of claim C7. With
  \<^verbatim>\<open>--outdir build/\<close>, \<^verbatim>\<open>build/\<close> there and \<^verbatim>\<open>out/\<close> missing, the page is written
  first and the run then fails on the directory of the second call.
\<close>

theorem page_written_before_failure:
  \<open>\<not> path_exists (example_fs [''build/'']) ''out/''
   \<and> file_text (example_fs [''build/'']) ''build/index.html'' = None
   \<and> fst (main example_libs build_args (example_fs [''build/''])) = Some AssertionError
   \<and> file_text (snd (main example_libs build_args (example_fs [''build/''])))
         ''build/index.html''
       = Some ''<main><a href="https://x"><button class="btn" > <i class="fa-solid fa-home"></i> &nbsp; CV </button></a></main>''\<close>
proof -
  have links: "sum_links example_libs (example_fs [''build/'']) [] (infiles build_args)
      = Inr [PDict [(''text'', PStr ''CV''), (''fa icon'', PStr ''home''),
                    (''url'', PStr ''https://x'')]]"
    by (simp add: build_args_def parse_cli_def links_repr_from_file_def endswith_def
          suffix_to_prefix example_fs_def example_libs_def example_json_def)
  have html: \<open>convert_links_to_html example_libs
        [PDict [(''text'', PStr ''CV''), (''fa icon'', PStr ''home''),
                (''url'', PStr ''https://x'')]] build_args
      = Inr ''<a href="https://x"><button class="btn" > <i class="fa-solid fa-home"></i> &nbsp; CV </button></a>''\<close>
    by (simp add: convert_links_to_html_def line_html_def build_args_def parse_cli_def
          grouper.simps convert_link_to_html_def dict_get_def example_libs_def)
  show ?thesis
    by (simp add: main_def links html)
       (simp add: build_args_def parse_cli_def render_template_def os_path_join_def
          example_fs_def example_libs_def example_render_def open_w_def fd_write_def
          suffix_to_prefix Let_def)
qed

section \<open>Groups that hold a record with no key\<close>

text \<open>
  Claim C2 does not hold of the code, by the defect of claim C5. \<open>grouper\<close> cuts the
  records as the claim says (\<open>grid_groups\<close>), but a record with no key is false like the
  padding and the grid leaves it out of its group. With two buttons per line the three
  records of \<open>keyless_links\<close> give a first line of one button, not of two; with one
  button per line two records with no key give two empty lines around the break.
\<close>

theorem keyless_record_leaves_group:
  \<open>max_button_per_line (parse_cli []) = 2
   \<and> grouper keyless_links (max_button_per_line (parse_cli [])) PNone
       = [[PDict [], PDict [(''text'', PStr ''A'')]], [PDict [(''text'', PStr ''B'')], PNone]]
   \<and> convert_links_to_html example_libs keyless_links (parse_cli [])
       = Inr (''<a href="/"><button class="btn" > <i class="fa-solid fa-home"></i> &nbsp; A </button></a>''
              @ ''<br/>''
              @ ''<a href="/"><button class="btn" > <i class="fa-solid fa-home"></i> &nbsp; B </button></a>'')
   \<and> convert_links_to_html example_libs [PDict [], PDict []]
         ((parse_cli [])\<lparr>max_button_per_line := 1\<rparr>)
       = Inr ''<br/>''\<close>
  by (simp add: parse_cli_def keyless_links_def grouper.simps convert_links_to_html_def
        line_html_def convert_link_to_html_def dict_get_def)

section \<open>The attributes of the button tag\<close>

text \<open>
  Claim C6. Every record renders to one anchor whose button tag carries, after the class,
  the inline style attribute made of the width, font size and colour that are true (no
  attribute when none is), and then the two event attributes exactly when the record's
  hover colour is specified, that is when \<^verbatim>\<open>data.get('hovered color')\<close> has a true truth
  value: \<^verbatim>\<open>onMouseOver\<close> sets the background to the hover colour and \<^verbatim>\<open>onMouseOut\<close>
  sets it back to the record's colour when it has one, to the global default button
  colour otherwise. The tag holds nothing else: without a hover colour it has no event
  attribute, whatever the style.
\<close>

theorem hover_events:
  \<open>let w = dict_get d ''button width'' PNone; f = dict_get d ''fontsize'' PNone;
       c = dict_get d ''color'' PNone; h = dict_get d ''hovered color'' PNone
   in json_repr_to_html L (PDict d) a
        = Inr (''<a href="'' @ py_str L (dict_get d ''url'' (PStr ''/''))
               @ ''"><button class="btn" ''
               @ (if py_bool L w \<or> py_bool L f \<or> py_bool L c
                  then '' style="''
                       @ (if py_bool L w then ''width: '' @ py_str L w @ ''px;'' else '''')
                       @ (if py_bool L f then ''font-size: '' @ py_str L f @ ''px;'' else '''')
                       @ (if py_bool L c then ''background-color: '' @ py_str L c @ '';''
                          else '''')
                       @ ''"''
                  else '''')
               @ (if py_bool L h
                  then '' onMouseOver=this.style.backgroundColor="'' @ py_str L h @ ''"''
                       @ '' onMouseOut=this.style.backgroundColor="''
                       @ (if py_bool L c then py_str L c else button_color a) @ ''"''
                  else '''')
               @ ''> <i class="fa-solid fa-'' @ py_str L (dict_get d ''fa icon'' (PStr ''home''))
               @ ''"></i> &nbsp; '' @ py_str L (dict_get d ''text'' (PStr ''''))
               @ '' </button></a>'')\<close>
proof -
  define w where "w = dict_get d ''button width'' PNone"
  define f where "f = dict_get d ''fontsize'' PNone"
  define c where "c = dict_get d ''color'' PNone"
  define h where "h = dict_get d ''hovered color'' PNone"
  show ?thesis
    unfolding Let_def json_repr_to_html.simps convert_link_to_html_def
      w_def [symmetric] f_def [symmetric] c_def [symmetric] h_def [symmetric]
    by (cases "py_bool L w"; cases "py_bool L f"; cases "py_bool L c"; cases "py_bool L h")
       simp_all
qed

text \<open>
  Three records under the default colours: a hover colour alone, the maximal record of
  the documentation, and a colour without a hover colour, whose tag has the style
  attribute and no event attribute.
\<close>

theorem hover_events_witness:
  \<open>json_repr_to_html example_libs (PDict hover_record) (parse_cli [])
     = Inr ''<a href="/"><button class="btn"  onMouseOver=this.style.backgroundColor="Pink" onMouseOut=this.style.backgroundColor="DarkOrange"> <i class="fa-solid fa-home"></i> &nbsp; CV </button></a>''
   \<and> json_repr_to_html example_libs (PDict full_record) (parse_cli [])
     = Inr ''<a href="https://asp.bourneuf.net"><button class="btn"  style="width: 400px;font-size: 25px;background-color: ForestGreen;" onMouseOver=this.style.backgroundColor="Pink" onMouseOut=this.style.backgroundColor="ForestGreen"> <i class="fa-solid fa-home"></i> &nbsp; bakasp </button></a>''
   \<and> json_repr_to_html example_libs (PDict styled_record) (parse_cli [])
     = Inr ''<a href="/"><button class="btn"  style="background-color: ForestGreen;"> <i class="fa-solid fa-home"></i> &nbsp; CV </button></a>''\<close>
proof -
  have 1: \<open>json_repr_to_html example_libs (PDict hover_record) (parse_cli [])
     = Inr ''<a href="/"><button class="btn"  onMouseOver=this.style.backgroundColor="Pink" onMouseOut=this.style.backgroundColor="DarkOrange"> <i class="fa-solid fa-home"></i> &nbsp; CV </button></a>''\<close>
    using hover_events [of hover_record example_libs "parse_cli []"]
    by (simp add: Let_def hover_record_def dict_get_def parse_cli_def)
  have 2: \<open>json_repr_to_html example_libs (PDict full_record) (parse_cli [])
     = Inr ''<a href="https://asp.bourneuf.net"><button class="btn"  style="width: 400px;font-size: 25px;background-color: ForestGreen;" onMouseOver=this.style.backgroundColor="Pink" onMouseOut=this.style.backgroundColor="ForestGreen"> <i class="fa-solid fa-home"></i> &nbsp; bakasp </button></a>''\<close>
    using hover_events [of full_record example_libs "parse_cli []"]
    by (simp add: Let_def full_record_def dict_get_def parse_cli_def)
  have 3: \<open>json_repr_to_html example_libs (PDict styled_record) (parse_cli [])
     = Inr ''<a href="/"><button class="btn"  style="background-color: ForestGreen;"> <i class="fa-solid fa-home"></i> &nbsp; CV </button></a>''\<close>
    using hover_events [of styled_record example_libs "parse_cli []"]
    by (simp add: Let_def styled_record_def dict_get_def parse_cli_def)
  from 1 2 3 show ?thesis by blast
qed

section \<open>The error of a run with an unsupported file\<close>

text \<open>
  Claim C3, amended. If an input file path ends neither in \<^verbatim>\<open>.csv\<close> nor in
  \<^verbatim>\<open>.json\<close>, the run fails before any rendering and leaves the file system as it
  was: no output file is created or modified. The files are loaded in the order of the
  command line and the first failure ends the run: the error is the unsupported-format
  error of that file when every file before it loads, and otherwise the error of the
  first file before it that fails to load.
\<close>

theorem unsupported_file_aborts:
  assumes "infiles a = ps @ p # qs"
    and "\<not> endswith p ''.csv''" and "\<not> endswith p ''.json''"
  shows "(\<exists>e. main L a fs = (Some e, fs))
       \<and> ((\<forall>q\<in>set ps. \<exists>links. links_repr_from_file L fs q = Inr links) \<longrightarrow>
            main L a fs
              = (Some (NotImplementedError
                         (''Cannot handle file '' @ p @ '' (not a json nor a csv)'')), fs))
       \<and> (\<forall>ps1 q ps2 e.
             ps = ps1 @ q # ps2
             \<and> (\<forall>r\<in>set ps1. \<exists>links. links_repr_from_file L fs r = Inr links)
             \<and> links_repr_from_file L fs q = Inl e \<longrightarrow>
             main L a fs = (Some e, fs))"
proof -
  have u: "links_repr_from_file L fs p
     = Inl (NotImplementedError (''Cannot handle file '' @ p @ '' (not a json nor a csv)''))"
    using assms(2,3) by (rule unsupported_file)
  have "p \<in> set (infiles a)" using assms(1) by simp
  then obtain e where "sum_links L fs [] (infiles a) = Inl e"
    using sum_links_fails u by blast
  then have 1: "\<exists>e. main L a fs = (Some e, fs)" by (simp add: main_def)
  have 2: "main L a fs
              = (Some (NotImplementedError
                         (''Cannot handle file '' @ p @ '' (not a json nor a csv)'')), fs)"
    if "\<forall>q\<in>set ps. \<exists>links. links_repr_from_file L fs q = Inr links"
    using sum_links_first_error [OF that u, of "[]" qs] assms(1) by (simp add: main_def)
  have 3: "main L a fs = (Some e, fs)"
    if d: "ps = ps1 @ q # ps2"
      and l: "\<forall>r\<in>set ps1. \<exists>links. links_repr_from_file L fs r = Inr links"
      and f: "links_repr_from_file L fs q = Inl e"
    for ps1 q ps2 e
  proof -
    have "infiles a = ps1 @ q # (ps2 @ p # qs)" using assms(1) d by simp
    then have "sum_links L fs [] (infiles a) = Inl e"
      using sum_links_first_error [OF l f, of "[]" "ps2 @ p # qs"] by simp
    then show ?thesis by (simp add: main_def)
  qed
  from 1 2 3 show ?thesis by blast
qed

text \<open>
  Two runs that end on \<^verbatim>\<open>notes.txt\<close>: after \<^verbatim>\<open>links.csv\<close>, which loads, the error is
  the unsupported format; after \<^verbatim>\<open>missing.csv\<close>, which is not there, it is the error of
  opening that file.
\<close>

theorem unsupported_file_aborts_witness:
  "\<not> endswith ''notes.txt'' ''.csv'' \<and> \<not> endswith ''notes.txt'' ''.json''
   \<and> links_repr_from_file example_libs (example_fs [''out/'', ''templates/'']) ''links.csv''
       = Inr [PDict [(''text'', PStr ''CV''), (''fa icon'', PStr ''home''),
                     (''url'', PStr ''https://x'')]]
   \<and> main example_libs (parse_cli [''links.csv'', ''notes.txt''])
         (example_fs [''out/'', ''templates/''])
       = (Some (NotImplementedError ''Cannot handle file notes.txt (not a json nor a csv)''),
          example_fs [''out/'', ''templates/''])
   \<and> links_repr_from_file example_libs (example_fs [''out/'', ''templates/'']) ''missing.csv''
       = Inl OSError
   \<and> main example_libs (parse_cli [''missing.csv'', ''notes.txt''])
         (example_fs [''out/'', ''templates/''])
       = (Some OSError, example_fs [''out/'', ''templates/''])"
proof -
  let ?fs = "example_fs [''out/'', ''templates/'']"
  have 1: "infiles (parse_cli [''links.csv'', ''notes.txt'']) = [''links.csv''] @ ''notes.txt'' # []"
    and m1: "infiles (parse_cli [''missing.csv'', ''notes.txt''])
               = [''missing.csv''] @ ''notes.txt'' # []"
    by (simp_all add: parse_cli_def)
  have 2: "\<not> endswith ''notes.txt'' ''.csv''" and 3: "\<not> endswith ''notes.txt'' ''.json''"
    by (simp_all add: endswith_def suffix_to_prefix)
  have 4: "links_repr_from_file example_libs ?fs ''links.csv''
       = Inr [PDict [(''text'', PStr ''CV''), (''fa icon'', PStr ''home''),
                     (''url'', PStr ''https://x'')]]"
    by (simp add: links_repr_from_file_def endswith_def suffix_to_prefix example_fs_def
          example_libs_def example_csv_def)
  from 4 have 5: "\<forall>q\<in>set [''links.csv''].
      \<exists>links. links_repr_from_file example_libs ?fs q = Inr links"
    by simp
  have 6: "main example_libs (parse_cli [''links.csv'', ''notes.txt'']) ?fs
       = (Some (NotImplementedError ''Cannot handle file notes.txt (not a json nor a csv)''), ?fs)"
    using unsupported_file_aborts [OF 1 2 3, of example_libs ?fs,
        THEN conjunct2, THEN conjunct1, THEN mp, OF 5]
    by simp
  have 7: "links_repr_from_file example_libs ?fs ''missing.csv'' = Inl OSError"
    by (simp add: links_repr_from_file_def endswith_def suffix_to_prefix example_fs_def)
  have 8: "[''missing.csv''] = [] @ ''missing.csv'' # []
     \<and> (\<forall>r\<in>set []. \<exists>links. links_repr_from_file example_libs ?fs r = Inr links)
     \<and> links_repr_from_file example_libs ?fs ''missing.csv'' = Inl OSError"
    using 7 by simp
  have 9: "main example_libs (parse_cli [''missing.csv'', ''notes.txt'']) ?fs = (Some OSError, ?fs)"
    using unsupported_file_aborts [OF m1 2 3, of example_libs ?fs,
        THEN conjunct2, THEN conjunct2, THEN spec, THEN spec, THEN spec, THEN spec,
        THEN mp, OF 8] .
  from 2 3 4 6 7 9 show ?thesis by blast
qed

section \<open>The values of a record in the page\<close>














end
